theory Spec2Isabelle
  imports Main
begin

section \<open>AWS profile resolution and switching\<close>

text \<open>
  The development embeds the profile logic of \<^verbatim>\<open>aws_tray_manager.py\<close>
  (\<^verbatim>\<open>get_aws_profiles\<close>, \<^verbatim>\<open>switch_profile\<close>) and of
  \<^verbatim>\<open>aws_profile_manager.py\<close> (\<^verbatim>\<open>manage_aws_profiles\<close>).
  Both scripts keep their stores in \<^verbatim>\<open>configparser.ConfigParser\<close> objects, read
  and write \<^verbatim>\<open>os.environ\<close>, and leave a batch file behind for future shells.
  The parser object, the environment and the files are explicit values here; an
  exception is the left summand of a sum type.
\<close>

subsection \<open>Python strings\<close>

text \<open>
  Strings are \<^typ>\<open>string\<close>. The methods below are the ones the scripts call on what
  the user typed: \<^verbatim>\<open>lower\<close>, \<^verbatim>\<open>strip\<close>, \<^verbatim>\<open>isdigit\<close> and
  \<^verbatim>\<open>int\<close>, on the ASCII range.
\<close>

definition lower_char :: "char \<Rightarrow> char" where
  "lower_char c =
     (case map_of (zip ''ABCDEFGHIJKLMNOPQRSTUVWXYZ'' ''abcdefghijklmnopqrstuvwxyz'') c of
        None \<Rightarrow> c
      | Some l \<Rightarrow> l)"

definition str_lower :: "string \<Rightarrow> string" where
  "str_lower s = map lower_char s"

definition isspace :: "char \<Rightarrow> bool" where
  "isspace c = (c \<in> set [CHR 0x09, CHR 0x0A, CHR 0x0B, CHR 0x0C, CHR 0x0D,
                            CHR 0x1C, CHR 0x1D, CHR 0x1E, CHR 0x1F, CHR 0x20])"

definition str_strip :: "string \<Rightarrow> string" where
  "str_strip s = rev (dropWhile isspace (rev (dropWhile isspace s)))"

definition str_isdigit :: "string \<Rightarrow> bool" where
  "str_isdigit s = (s \<noteq> [] \<and> list_all (\<lambda>c. c \<in> set ''0123456789'') s)"

definition digit_value :: "char \<Rightarrow> int" where
  "digit_value c = int (of_char c) - 48"

definition str_int :: "string \<Rightarrow> int" where
  "str_int s = foldl (\<lambda>n c. 10 * n + digit_value c) 0 s"

subsection \<open>The configparser object\<close>

text \<open>
  A \<^verbatim>\<open>ConfigParser\<close> holds the options of the \<^verbatim>\<open>DEFAULT\<close> section and an ordered
  dictionary of the other sections, each an ordered dictionary of options. Option names
  go through \<^verbatim>\<open>optionxform\<close> (lower case). \<^verbatim>\<open>DEFAULT\<close> is no section for
  \<^verbatim>\<open>sections()\<close> and \<^verbatim>\<open>has_section\<close>, and its options are visible in every
  section.
\<close>

type_synonym options = "(string \<times> string) list"

record ConfigParser =
  defaults :: options
  sections_dict :: "(string \<times> options) list"

datatype error =
    ParsingError
  | NoSectionError
  | NoOptionError
  | DuplicateSectionError
  | InterpolationSyntaxError
  | InterpolationMissingOptionError
  | InterpolationDepthError
  | ValueError
  | EOFError

definition default_section :: string where
  "default_section = ''DEFAULT''"

definition MAX_INTERPOLATION_DEPTH :: nat where
  "MAX_INTERPOLATION_DEPTH = 10"

definition empty_parser :: ConfigParser where
  "empty_parser = \<lparr>defaults = [], sections_dict = []\<rparr>"

definition optionxform :: "string \<Rightarrow> string" where
  "optionxform optionstr = str_lower optionstr"

definition sections :: "ConfigParser \<Rightarrow> string list" where
  "sections cp = map fst (sections_dict cp)"

definition has_section :: "ConfigParser \<Rightarrow> string \<Rightarrow> bool" where
  "has_section cp section = (section \<in> set (sections cp))"

definition has_option :: "ConfigParser \<Rightarrow> string \<Rightarrow> string \<Rightarrow> bool" where
  "has_option cp section option =
     (if section = [] \<or> section = default_section
      then optionxform option \<in> set (map fst (defaults cp))
      else (case map_of (sections_dict cp) section of
              None \<Rightarrow> False
            | Some d \<Rightarrow> optionxform option \<in> set (map fst d)
                       \<or> optionxform option \<in> set (map fst (defaults cp))))"

text \<open>
  \<^verbatim>\<open>_unify_values\<close>: the section's options in front of the defaults;
  \<^verbatim>\<open>NoSectionError\<close> (here \<open>None\<close>) for a missing section other than
  \<^verbatim>\<open>DEFAULT\<close>.
\<close>

definition unify_values :: "ConfigParser \<Rightarrow> string \<Rightarrow> options option" where
  "unify_values cp section =
     (case map_of (sections_dict cp) section of
        None \<Rightarrow> (if section \<noteq> default_section then None else Some (defaults cp))
      | Some d \<Rightarrow> Some (d @ defaults cp))"

text \<open>
  \<^verbatim>\<open>BasicInterpolation\<close>. \<open>key_match\<close> is the regular expression
  \<^verbatim>\<open>%\(([^)]+)\)s\<close> matched at the head of a string: the name in the parentheses
  and what follows the match.
\<close>

definition key_match :: "string \<Rightarrow> (string \<times> string) option" where
  "key_match rest =
     (case rest of
        c1 # c2 # r \<Rightarrow>
          if c1 = CHR ''%'' \<and> c2 = CHR ''(''
          then (let name = takeWhile (\<lambda>c. c \<noteq> CHR '')'') r;
                    after = dropWhile (\<lambda>c. c \<noteq> CHR '')'') r
                in if name = [] then None
                   else (case after of
                           c3 # c4 # r' \<Rightarrow> if c4 = CHR ''s'' then Some (name, r') else None
                         | _ \<Rightarrow> None))
          else None
      | _ \<Rightarrow> None)"

lemma key_match_shorter: "key_match rest = Some (name, r') \<Longrightarrow> length r' < length rest"
proof -
  assume m: "key_match rest = Some (name, r')"
  then obtain c1 c2 r where rest: "rest = c1 # c2 # r"
    by (auto simp: key_match_def split: list.splits)
  from m rest obtain c3 c4 where "dropWhile (\<lambda>c. c \<noteq> CHR '')'') r = c3 # c4 # r'"
    by (auto simp: key_match_def Let_def split: list.splits if_splits)
  then have "length r' < length (dropWhile (\<lambda>c. c \<noteq> CHR '')'') r)"
    by simp
  also have "\<dots> \<le> length r"
    by (rule length_dropWhile_le)
  finally show ?thesis
    using rest by simp
qed

function interpolate_some :: "options \<Rightarrow> nat \<Rightarrow> string \<Rightarrow> error + string" where
  "interpolate_some m depth rest =
     (if depth > MAX_INTERPOLATION_DEPTH then Inl InterpolationDepthError
      else (case rest of
              [] \<Rightarrow> Inr []
            | c # cs \<Rightarrow>
                if c \<noteq> CHR ''%'' then
                  (case interpolate_some m depth cs of
                     Inl e \<Rightarrow> Inl e
                   | Inr s \<Rightarrow> Inr (c # s))
                else if take 1 cs = ''%'' then
                  (case interpolate_some m depth (drop 1 cs) of
                     Inl e \<Rightarrow> Inl e
                   | Inr s \<Rightarrow> Inr (CHR ''%'' # s))
                else if take 1 cs = ''('' then
                  (case key_match rest of
                     None \<Rightarrow> Inl InterpolationSyntaxError
                   | Some (var, rest') \<Rightarrow>
                       (case map_of m (optionxform var) of
                          None \<Rightarrow> Inl InterpolationMissingOptionError
                        | Some v \<Rightarrow>
                            (case (if CHR ''%'' \<in> set v
                                   then interpolate_some m (depth + 1) v
                                   else Inr v) of
                               Inl e \<Rightarrow> Inl e
                             | Inr s \<Rightarrow>
                                 (case interpolate_some m depth rest' of
                                    Inl e \<Rightarrow> Inl e
                                  | Inr t \<Rightarrow> Inr (s @ t)))))
                else Inl InterpolationSyntaxError))"
  by pat_completeness auto
termination
proof (relation "measures [\<lambda>(m, depth, rest). Suc MAX_INTERPOLATION_DEPTH - depth,
                           \<lambda>(m, depth, rest). length rest]", goal_cases)
  case 1
  show ?case by simp
next
  case (2 m depth rest c cs)
  then show ?case by simp
next
  case (3 m depth rest c cs)
  then show ?case by simp
next
  case (4 m depth rest c cs x2 var rest' v)
  then show ?case by auto
next
  case (5 m depth rest c cs x2 var rest' v s)
  then show ?case using key_match_shorter [of rest var rest'] by simp
qed

definition before_get :: "options \<Rightarrow> string \<Rightarrow> error + string" where
  "before_get d v = interpolate_some d 1 v"

text \<open>
  \<^verbatim>\<open>get(section, option, fallback=...)\<close>; \<open>None\<close> as the last argument is a
  call without \<^verbatim>\<open>fallback\<close>.
\<close>

definition cp_get :: "ConfigParser \<Rightarrow> string \<Rightarrow> string \<Rightarrow> string option \<Rightarrow> error + string" where
  "cp_get cp section option fallback =
     (case unify_values cp section of
        None \<Rightarrow> (case fallback of None \<Rightarrow> Inl NoSectionError | Some f \<Rightarrow> Inr f)
      | Some d \<Rightarrow>
          (case map_of d (optionxform option) of
             None \<Rightarrow> (case fallback of None \<Rightarrow> Inl NoOptionError | Some f \<Rightarrow> Inr f)
           | Some v \<Rightarrow> before_get d v))"

text \<open>
  \<^verbatim>\<open>add_section\<close> refuses the name \<^verbatim>\<open>DEFAULT\<close> and a name already present.
\<close>

definition add_section :: "ConfigParser \<Rightarrow> string \<Rightarrow> error + ConfigParser" where
  "add_section cp section =
     (if section = default_section then Inl ValueError
      else if section \<in> set (sections cp) then Inl DuplicateSectionError
      else Inr (cp\<lparr>sections_dict := sections_dict cp @ [(section, [])]\<rparr>))"

text \<open>Assignment to a key of an ordered dictionary: in place, or at the end.\<close>

fun dict_set :: "('k \<times> 'v) list \<Rightarrow> 'k \<Rightarrow> 'v \<Rightarrow> ('k \<times> 'v) list" where
  "dict_set [] k v = [(k, v)]"
| "dict_set ((k', v') # kvs) k v =
     (if k' = k then (k, v) # kvs else (k', v') # dict_set kvs k v)"

text \<open>
  \<^verbatim>\<open>before_set\<close>: a value is refused when a \<^verbatim>\<open>%\<close> is left after the escaped
  \<^verbatim>\<open>%%\<close> and the well-formed references are taken out.
\<close>

fun remove_escaped :: "string \<Rightarrow> string" where
  "remove_escaped (c # d # r) =
     (if c = CHR ''%'' \<and> d = CHR ''%'' then remove_escaped r else c # remove_escaped (d # r))"
| "remove_escaped r = r"

function remove_keys :: "string \<Rightarrow> string" where
  "remove_keys s =
     (case key_match s of
        Some (var, r) \<Rightarrow> remove_keys r
      | None \<Rightarrow> (case s of [] \<Rightarrow> [] | c # cs \<Rightarrow> c # remove_keys cs))"
  by pat_completeness auto
termination
  by (relation "measure length") (auto dest: key_match_shorter)

definition before_set :: "string \<Rightarrow> error + string" where
  "before_set v =
     (if CHR ''%'' \<in> set (remove_keys (remove_escaped v)) then Inl ValueError else Inr v)"

definition cp_set :: "ConfigParser \<Rightarrow> string \<Rightarrow> string \<Rightarrow> string \<Rightarrow> error + ConfigParser" where
  "cp_set cp section option v =
     (case (if v \<noteq> [] then before_set v else Inr v) of
        Inl e \<Rightarrow> Inl e
      | Inr v' \<Rightarrow>
          if section = [] \<or> section = default_section
          then Inr (cp\<lparr>defaults := dict_set (defaults cp) (optionxform option) v'\<rparr>)
          else (case map_of (sections_dict cp) section of
                  None \<Rightarrow> Inl NoSectionError
                | Some d \<Rightarrow>
                    Inr (cp\<lparr>sections_dict :=
                           dict_set (sections_dict cp) section
                             (dict_set d (optionxform option) v')\<rparr>)))"

subsection \<open>The files, the settings and the process environment\<close>

text \<open>
  A store file is missing, cannot be parsed (\<^verbatim>\<open>read\<close> raises), or holds what the
  parser reads from it. \<^verbatim>\<open>write\<close> leaves the file holding the parser's state.
  The paths of \<^verbatim>\<open>config.json\<close> are not modelled: the credentials file and the config
  file are the two files they name, taken to be different files. Writing a file and
  starting the batch file are taken to succeed.
\<close>

datatype ini_file = Missing | Unparsable | Holds ConfigParser

record favorite =
  fav_name :: string
  fav_color :: "string option"
  fav_region :: "string option"

text \<open>
  The keys of \<^verbatim>\<open>aws_profiles\<close> in \<^verbatim>\<open>config.json\<close> that the profile logic reads;
  \<open>None\<close> is an absent key (\<^verbatim>\<open>load_config\<close> returns the empty dictionary when
  the file cannot be loaded).
\<close>

record aws_config =
  cfg_favorites :: "favorite list option"
  cfg_default_region :: "string option"

record world =
  environ :: "string \<rightharpoonup> string"
  aws_profiles :: aws_config
  credentials_file :: ini_file
  config_file :: ini_file
  batch_file :: "string list option"

definition aws_favorites :: "world \<Rightarrow> favorite list" where
  "aws_favorites w = (case cfg_favorites (aws_profiles w) of None \<Rightarrow> [] | Some fs \<Rightarrow> fs)"

definition aws_default_region :: "world \<Rightarrow> string" where
  "aws_default_region w =
     (case cfg_default_region (aws_profiles w) of None \<Rightarrow> ''us-east-1'' | Some r \<Rightarrow> r)"

text \<open>
  \<^verbatim>\<open>config_parser = ConfigParser(); if os.path.exists(config_path): config_parser.read(config_path)\<close>
\<close>

definition read_config :: "ini_file \<Rightarrow> error + ConfigParser" where
  "read_config f =
     (case f of
        Missing \<Rightarrow> Inr empty_parser
      | Unparsable \<Rightarrow> Inl ParsingError
      | Holds cp \<Rightarrow> Inr cp)"

subsection \<open>The steps both scripts share\<close>

text \<open>
  \<^verbatim>\<open># Get current default profile\<close> (tray lines 60--63, manager lines 62--65).
\<close>

definition get_current_default_profile :: "(string \<rightharpoonup> string) \<Rightarrow> string" where
  "get_current_default_profile env =
     (case env ''AWS_PROFILE'' of
        None \<Rightarrow> ''default''
      | Some p \<Rightarrow> p)"

text \<open>
  \<^verbatim>\<open># Get current region\<close> (tray lines 65--72, manager lines 67--74): the
  \<^verbatim>\<open>if\<close>/\<^verbatim>\<open>elif\<close> chain, the section looked up being
  \<^verbatim>\<open>f"profile {current_profile}"\<close> for every profile.
\<close>

definition get_current_region ::
    "(string \<rightharpoonup> string) \<Rightarrow> ConfigParser \<Rightarrow> string \<Rightarrow> string \<Rightarrow> error + string" where
  "get_current_region env config_parser default_region current_profile =
     (case env ''AWS_REGION'' of
        Some r \<Rightarrow> Inr r
      | None \<Rightarrow>
          (case env ''AWS_DEFAULT_REGION'' of
             Some r \<Rightarrow> Inr r
           | None \<Rightarrow>
               if has_section config_parser (''profile '' @ current_profile)
                  \<and> has_option config_parser (''profile '' @ current_profile) ''region''
               then cp_get config_parser (''profile '' @ current_profile) ''region'' None
               else Inr default_region))"

text \<open>
  \<^verbatim>\<open># Get all profiles\<close> (tray lines 74--77, manager lines 80--83).
\<close>

definition get_all_profiles :: "ConfigParser \<Rightarrow> string list" where
  "get_all_profiles credentials =
     (let profiles = sections credentials
      in if ''default'' \<notin> set profiles \<and> has_section credentials ''default''
         then ''default'' # profiles
         else profiles)"

text \<open>
  \<^verbatim>\<open># Get region for this profile\<close> (tray lines 93--98, manager lines 177--182).
\<close>

definition get_region_for_profile :: "ConfigParser \<Rightarrow> string \<Rightarrow> string \<Rightarrow> error + string" where
  "get_region_for_profile config_parser default_region profile_name =
     (let section_name =
            (if profile_name = ''default'' then ''default'' else ''profile '' @ profile_name)
      in if has_section config_parser section_name
         then cp_get config_parser section_name ''region'' (Some default_region)
         else Inr default_region)"

text \<open>
  \<^verbatim>\<open># Set environment variables for current session\<close> (tray lines 100--102,
  manager lines 184--186 and 153--155).
\<close>

definition set_environment_variables ::
    "string \<Rightarrow> string \<Rightarrow> (string \<rightharpoonup> string) \<Rightarrow> (string \<rightharpoonup> string)" where
  "set_environment_variables profile region env =
     env(''AWS_PROFILE'' \<mapsto> profile, ''AWS_DEFAULT_REGION'' \<mapsto> region)"

text \<open>
  The lines of \<^verbatim>\<open>set_aws_profile.bat\<close>; the manager's file ends with
  \<^verbatim>\<open>pause\<close>, the tray's does not.
\<close>

definition batch_lines :: "string \<Rightarrow> string \<Rightarrow> string list" where
  "batch_lines profile region =
     [''@echo off'',
      ''echo Setting AWS profile to '' @ profile @ ''...'',
      ''setx AWS_PROFILE '' @ profile,
      ''setx AWS_DEFAULT_REGION '' @ region,
      ''echo Profile set to '' @ profile @ '' ('' @ region @ '')'']"

subsection \<open>The tray manager\<close>

definition get_aws_profiles ::
    "world \<Rightarrow> error + (string list \<times> string \<times> string \<times> favorite list)" where
  "get_aws_profiles w =
     (case credentials_file w of
        Missing \<Rightarrow> Inr ([], ''default'', aws_default_region w, aws_favorites w)
      | Unparsable \<Rightarrow> Inl ParsingError
      | Holds credentials \<Rightarrow>
          (case read_config (config_file w) of
             Inl e \<Rightarrow> Inl e
           | Inr config_parser \<Rightarrow>
               (let current_profile = get_current_default_profile (environ w)
                in case get_current_region (environ w) config_parser
                          (aws_default_region w) current_profile of
                     Inl e \<Rightarrow> Inl e
                   | Inr current_region \<Rightarrow>
                       Inr (get_all_profiles credentials, current_profile, current_region,
                            aws_favorites w))))"

text \<open>
  \<^verbatim>\<open>switch_profile\<close> returns the selected region; the world it leaves is the
  second component. An exception of the parser comes before any effect.
\<close>

definition switch_profile :: "string \<Rightarrow> world \<Rightarrow> error + (string \<times> world)" where
  "switch_profile profile_name w =
     (case read_config (config_file w) of
        Inl e \<Rightarrow> Inl e
      | Inr config_parser \<Rightarrow>
          (case get_region_for_profile config_parser (aws_default_region w) profile_name of
             Inl e \<Rightarrow> Inl e
           | Inr selected_region \<Rightarrow>
               Inr (selected_region,
                    w\<lparr>environ :=
                        set_environment_variables profile_name selected_region (environ w),
                      batch_file := Some (batch_lines profile_name selected_region)\<rparr>)))"

subsection \<open>The interactive manager\<close>

text \<open>
  \<^verbatim>\<open>manage_aws_profiles\<close> runs once over the answers typed at its prompts (the
  list \<open>inputs\<close>; \<^verbatim>\<open>input\<close> on an exhausted list is \<^verbatim>\<open>EOFError\<close>). It returns
  nothing; the outcome names the message of the branch that ended the run, and the
  world is returned as the run, or the exception, left it. The listing it prints
  reads the stores and writes nothing.
\<close>

datatype outcome =
    CredentialsNotFound bool
  | Quit
  | EmptyProfileName
  | ProfileExists string
  | ProfileAdded string string bool
  | Switched string string
  | InvalidProfileNumber
  | InvalidOption

definition bootstrap_credentials :: ConfigParser where
  "bootstrap_credentials =
     \<lparr>defaults = [],
      sections_dict = [(''default'', [(''aws_access_key_id'', ''YOUR_ACCESS_KEY''),
                                      (''aws_secret_access_key'', ''YOUR_SECRET_KEY'')])]\<rparr>"

text \<open>The branch \<^verbatim>\<open>choice == 'a'\<close> (lines 114--169).\<close>

definition add_new_profile ::
    "string list \<Rightarrow> ConfigParser \<Rightarrow> ConfigParser \<Rightarrow> world \<Rightarrow> (error + outcome) \<times> world" where
  "add_new_profile inputs credentials config_parser w =
     (case inputs of
        [] \<Rightarrow> (Inl EOFError, w)
      | name_typed # inputs1 \<Rightarrow>
          (let new_profile = str_strip name_typed
           in if new_profile = [] then (Inr EmptyProfileName, w)
              else if has_section credentials new_profile then (Inr (ProfileExists new_profile), w)
              else (case inputs1 of
                      access_typed # secret_typed # region_typed # inputs2 \<Rightarrow>
                        (let access_key = str_strip access_typed;
                             secret_key = str_strip secret_typed;
                             region = (if str_strip region_typed = []
                                       then aws_default_region w
                                       else str_strip region_typed);
                             section = ''profile '' @ new_profile
                         in case add_section credentials new_profile of
                              Inl e \<Rightarrow> (Inl e, w)
                            | Inr c1 \<Rightarrow>
                          (case cp_set c1 new_profile ''aws_access_key_id'' access_key of
                              Inl e \<Rightarrow> (Inl e, w)
                            | Inr c2 \<Rightarrow>
                          (case cp_set c2 new_profile ''aws_secret_access_key'' secret_key of
                              Inl e \<Rightarrow> (Inl e, w)
                            | Inr c3 \<Rightarrow>
                          (let w1 = w\<lparr>credentials_file := Holds c3\<rparr>
                           in case (if has_section config_parser section
                                    then Inr config_parser
                                    else add_section config_parser section) of
                              Inl e \<Rightarrow> (Inl e, w1)
                            | Inr g1 \<Rightarrow>
                          (case cp_set g1 section ''region'' region of
                              Inl e \<Rightarrow> (Inl e, w1)
                            | Inr g2 \<Rightarrow>
                          (let w2 = w1\<lparr>config_file := Holds g2\<rparr>
                           in case inputs2 of
                                [] \<Rightarrow> (Inl EOFError, w2)
                              | switch # _ \<Rightarrow>
                                  if str_lower switch = ''y''
                                  then (Inr (ProfileAdded new_profile region True),
                                        w2\<lparr>environ :=
                                             set_environment_variables new_profile region
                                               (environ w2),
                                           batch_file :=
                                             Some (batch_lines new_profile region @ [''pause''])\<rparr>)
                                  else (Inr (ProfileAdded new_profile region False), w2)))))))
                    | _ \<Rightarrow> (Inl EOFError, w))))"

text \<open>The branch \<^verbatim>\<open>choice.isdigit()\<close> (lines 171--202).\<close>

definition select_profile ::
    "string \<Rightarrow> string list \<Rightarrow> ConfigParser \<Rightarrow> world \<Rightarrow> (error + outcome) \<times> world" where
  "select_profile choice profiles config_parser w =
     (let index = str_int choice - 1
      in if 0 \<le> index \<and> index < int (length profiles)
         then (let selected_profile = profiles ! nat index
               in case get_region_for_profile config_parser (aws_default_region w)
                         selected_profile of
                    Inl e \<Rightarrow> (Inl e, w)
                  | Inr selected_region \<Rightarrow>
                      (Inr (Switched selected_profile selected_region),
                       w\<lparr>environ :=
                           set_environment_variables selected_profile selected_region
                             (environ w),
                         batch_file :=
                           Some (batch_lines selected_profile selected_region @ [''pause''])\<rparr>))
         else (Inr InvalidProfileNumber, w))"

definition manage_aws_profiles :: "string list \<Rightarrow> world \<Rightarrow> (error + outcome) \<times> world" where
  "manage_aws_profiles inputs w =
     (case credentials_file w of
        Missing \<Rightarrow>
          (case inputs of
             [] \<Rightarrow> (Inl EOFError, w)
           | create_new # _ \<Rightarrow>
               if str_lower create_new = ''y''
               then (Inr (CredentialsNotFound True),
                     w\<lparr>credentials_file := Holds bootstrap_credentials\<rparr>)
               else (Inr (CredentialsNotFound False), w))
      | Unparsable \<Rightarrow> (Inl ParsingError, w)
      | Holds credentials \<Rightarrow>
          (case read_config (config_file w) of
             Inl e \<Rightarrow> (Inl e, w)
           | Inr config_parser \<Rightarrow>
               (let current_profile = get_current_default_profile (environ w)
                in case get_current_region (environ w) config_parser
                          (aws_default_region w) current_profile of
                     Inl e \<Rightarrow> (Inl e, w)
                   | Inr current_region \<Rightarrow>
                       (let profiles = get_all_profiles credentials
                        in case inputs of
                             [] \<Rightarrow> (Inl EOFError, w)
                           | typed # inputs1 \<Rightarrow>
                               (let choice = str_lower (str_strip typed)
                                in if choice = ''q'' then (Inr Quit, w)
                                   else if choice = ''a''
                                   then add_new_profile inputs1 credentials config_parser w
                                   else if str_isdigit choice
                                   then select_profile choice profiles config_parser w
                                   else (Inr InvalidOption, w))))))"

subsection \<open>Configurations that differ in their favorites, and example stores\<close>

text \<open>The same world with another \<^verbatim>\<open>favorites\<close> entry in \<^verbatim>\<open>config.json\<close>.\<close>

definition with_favorites :: "favorite list option \<Rightarrow> world \<Rightarrow> world" where
  "with_favorites fs w = w\<lparr>aws_profiles := (aws_profiles w)\<lparr>cfg_favorites := fs\<rparr>\<rparr>"

text \<open>
  A credentials file whose \<^verbatim>\<open>[default]\<close> section comes second, and a config file
  with a region for \<^verbatim>\<open>default\<close> and for \<^verbatim>\<open>dev\<close> and a section without a
  region for \<^verbatim>\<open>ops\<close>.
\<close>

definition example_credentials :: ConfigParser where
  "example_credentials =
     \<lparr>defaults = [],
      sections_dict =
        [(''dev'', [(''aws_access_key_id'', ''AKIADEV''),
                    (''aws_secret_access_key'', ''devsecret'')]),
         (''default'', [(''aws_access_key_id'', ''AKIADEFAULT''),
                        (''aws_secret_access_key'', ''defaultsecret'')])]\<rparr>"

definition example_config :: ConfigParser where
  "example_config =
     \<lparr>defaults = [],
      sections_dict =
        [(''default'', [(''region'', ''eu-west-1'')]),
         (''profile dev'', [(''region'', ''ap-south-1'')]),
         (''profile ops'', [(''output'', ''json'')])]\<rparr>"

definition example_world :: "(string \<rightharpoonup> string) \<Rightarrow> world" where
  "example_world env =
     \<lparr>environ = env,
      aws_profiles = \<lparr>cfg_favorites = None, cfg_default_region = None\<rparr>,
      credentials_file = Holds example_credentials,
      config_file = Holds example_config,
      batch_file = None\<rparr>"

section \<open>Properties\<close>

subsection \<open>The parser\<close>

declare interpolate_some.simps [simp del]

lemmas example_defs = example_world_def example_config_def example_credentials_def

lemmas parser_defs = has_section_def sections_def has_option_def cp_get_def unify_values_def
  before_get_def default_section_def optionxform_def str_lower_def lower_char_def
  MAX_INTERPOLATION_DEPTH_def

lemmas step_defs = get_current_default_profile_def get_current_region_def
  get_all_profiles_def get_region_for_profile_def set_environment_variables_def
  read_config_def aws_default_region_def aws_favorites_def

text \<open>A value without \<^verbatim>\<open>%\<close> is read back as it is stored.\<close>

lemma interpolate_some_plain:
  "CHR ''%'' \<notin> set v \<Longrightarrow> depth \<le> MAX_INTERPOLATION_DEPTH \<Longrightarrow>
   interpolate_some m depth v = Inr v"
proof (induction v)
  case Nil
  then show ?case by (subst interpolate_some.simps) simp
next
  case (Cons c v)
  then show ?case by (subst interpolate_some.simps) auto
qed

lemma has_section_map_of:
  "has_section cp s \<longleftrightarrow> map_of (sections_dict cp) s \<noteq> None"
  by (simp add: has_section_def sections_def map_of_eq_None_iff)

text \<open>
  With a fallback, \<^verbatim>\<open>get\<close> answers the fallback when the section is missing or the
  option is in neither the section nor \<^verbatim>\<open>DEFAULT\<close>.
\<close>

lemma cp_get_fallback:
  assumes "section \<noteq> []" and "section \<noteq> default_section"
    and "\<not> has_section cp section \<or> \<not> has_option cp section option"
  shows "cp_get cp section option (Some d) = Inr d"
proof (cases "map_of (sections_dict cp) section")
  case None
  then show ?thesis
    by (simp add: cp_get_def unify_values_def assms(2))
next
  case (Some sd)
  with assms have "optionxform option \<notin> set (map fst sd)"
    and "optionxform option \<notin> set (map fst (defaults cp))"
    by (auto simp: has_option_def has_section_map_of)
  then have "map_of (sd @ defaults cp) (optionxform option) = None"
    by (simp add: map_of_eq_None_iff)
  with Some show ?thesis
    by (simp add: cp_get_def unify_values_def map_add_def)
qed

lemma section_name_proper:
  "(if X = ''default'' then ''default'' else ''profile '' @ X) \<noteq> []"
  "(if X = ''default'' then ''default'' else ''profile '' @ X) \<noteq> default_section"
  by (auto simp: default_section_def)

subsection \<open>Resolution\<close>

lemma get_current_region_AWS_REGION:
  "env ''AWS_REGION'' = Some x \<Longrightarrow> get_current_region env cp d q = Inr x"
  by (simp add: get_current_region_def)

lemma get_current_region_AWS_DEFAULT_REGION:
  "env ''AWS_REGION'' = None \<Longrightarrow> env ''AWS_DEFAULT_REGION'' = Some x \<Longrightarrow>
   get_current_region env cp d q = Inr x"
  by (simp add: get_current_region_def)

lemma get_current_region_no_section:
  "env ''AWS_REGION'' = None \<Longrightarrow> env ''AWS_DEFAULT_REGION'' = None \<Longrightarrow>
   \<not> has_section cp (''profile '' @ q) \<Longrightarrow> get_current_region env cp d q = Inr d"
  by (simp add: get_current_region_def)

lemma get_current_region_after_switch:
  "\<exists>x. get_current_region (env(''AWS_PROFILE'' \<mapsto> p, ''AWS_DEFAULT_REGION'' \<mapsto> r)) cp d q = Inr x"
  by (simp add: get_current_region_def split: option.splits)

lemma example_region_default:
  "get_region_for_profile example_config ''us-east-1'' ''default'' = Inr ''eu-west-1''"
  by (simp add: example_defs parser_defs step_defs interpolate_some_plain)

lemma example_region_dev:
  "get_region_for_profile example_config ''us-east-1'' ''dev'' = Inr ''ap-south-1''"
  by (simp add: example_defs parser_defs step_defs interpolate_some_plain)

text \<open>
  \<^bold>\<open>C1.\<close> With \<^verbatim>\<open>AWS_PROFILE=default\<close> and no region variable, the region of the
  active selection should be the one the config store declares for \<^verbatim>\<open>default\<close>, which
  is the section \<^verbatim>\<open>[default]\<close> (the section \<^verbatim>\<open>switch_profile\<close> reads for that
  name). The resolution step looks for \<^verbatim>\<open>[profile default]\<close> instead and answers the
  configured default region: on the example stores it gives \<^verbatim>\<open>us-east-1\<close> where the
  store declares \<^verbatim>\<open>eu-west-1\<close>.
\<close>

theorem resolve_active_misses_default_section:
  "get_aws_profiles (example_world [''AWS_PROFILE'' \<mapsto> ''default''])
     = Inr ([''dev'', ''default''], ''default'', ''us-east-1'', [])
   \<and> get_region_for_profile example_config ''us-east-1'' ''default'' = Inr ''eu-west-1''"
  by (simp add: get_aws_profiles_def example_defs parser_defs step_defs
      interpolate_some_plain Let_def)

subsection \<open>Listing\<close>

text \<open>
  The branch of \<^verbatim>\<open># Get all profiles\<close> that puts \<^verbatim>\<open>default\<close> in front is never
  taken: its guard asks for a section that \<^verbatim>\<open>sections()\<close> does not list and
  \<^verbatim>\<open>has_section\<close> finds, and \<^verbatim>\<open>has_section\<close> is membership in
  \<^verbatim>\<open>sections()\<close>. The list is the file's sections in file order.
\<close>

lemma get_all_profiles_sections:
  "get_all_profiles credentials = map fst (sections_dict credentials)"
  by (simp add: get_all_profiles_def has_section_def sections_def)

text \<open>
  \<^bold>\<open>C2.\<close> A credentials store with a \<^verbatim>\<open>default\<close> section should list
  \<^verbatim>\<open>default\<close> first, wherever the section stands in the file, and the code means to:
  it has \<^verbatim>\<open>profiles.insert(0, "default")\<close>. The guard in front of that statement
  cannot hold, so nothing is moved: on the example credentials, whose \<^verbatim>\<open>[default]\<close>
  section comes second, the list starts with \<^verbatim>\<open>dev\<close>.
\<close>

theorem default_not_hoisted:
  "get_all_profiles example_credentials = [''dev'', ''default'']
   \<and> get_all_profiles example_credentials ! 0 \<noteq> ''default''"
  by (simp add: example_defs parser_defs step_defs)

subsection \<open>Switching\<close>

text \<open>What a successful \<^verbatim>\<open>switch_profile\<close> has read and what it leaves.\<close>

lemma switch_profile_result:
  assumes "switch_profile p w = Inr (r, w')"
  shows "\<exists>cp. read_config (config_file w) = Inr cp
            \<and> get_region_for_profile cp (aws_default_region w) p = Inr r"
    and "w' = w\<lparr>environ := (environ w)(''AWS_PROFILE'' \<mapsto> p, ''AWS_DEFAULT_REGION'' \<mapsto> r),
                batch_file := Some (batch_lines p r)\<rparr>"
  using assms
  by (auto simp: switch_profile_def set_environment_variables_def split: sum.splits)

lemma switch_profile_succeeds:
  assumes "read_config (config_file w) = Inr cp"
    and "get_region_for_profile cp (aws_default_region w) p = Inr r"
  shows "switch_profile p w =
           Inr (r, w\<lparr>environ := (environ w)(''AWS_PROFILE'' \<mapsto> p, ''AWS_DEFAULT_REGION'' \<mapsto> r),
                     batch_file := Some (batch_lines p r)\<rparr>)"
  using assms by (simp add: switch_profile_def set_environment_variables_def)

lemma switch_profile_again:
  assumes "switch_profile p w = Inr (r, w')"
  shows "switch_profile p w' = Inr (r, w')"
proof -
  from switch_profile_result [OF assms] obtain cp where
    cp: "read_config (config_file w) = Inr cp"
        "get_region_for_profile cp (aws_default_region w) p = Inr r"
    and w': "w' = w\<lparr>environ := (environ w)(''AWS_PROFILE'' \<mapsto> p, ''AWS_DEFAULT_REGION'' \<mapsto> r),
                     batch_file := Some (batch_lines p r)\<rparr>"
    by blast
  show ?thesis
    using cp
    by (simp add: w' switch_profile_def set_environment_variables_def aws_default_region_def)
qed

text \<open>The switch by number of the interactive manager.\<close>

lemma add_new_profile_not_switched:
  "fst (add_new_profile inputs c g w) \<noteq> Inr (Switched p r)"
  by (simp add: add_new_profile_def Let_def split: list.splits sum.splits)

lemma select_profile_switched:
  assumes "select_profile choice profiles cp w = (Inr (Switched p r), w')"
  shows "get_region_for_profile cp (aws_default_region w) p = Inr r"
    and "w' = w\<lparr>environ := (environ w)(''AWS_PROFILE'' \<mapsto> p, ''AWS_DEFAULT_REGION'' \<mapsto> r),
                batch_file := Some (batch_lines p r @ [''pause''])\<rparr>"
    and "0 \<le> str_int choice - 1" and "str_int choice - 1 < int (length profiles)"
    and "profiles ! nat (str_int choice - 1) = p"
  using assms
  by (auto simp: select_profile_def Let_def set_environment_variables_def
      split: if_splits sum.splits)

lemma select_profile_again:
  assumes "select_profile choice profiles cp w = (Inr (Switched p r), w')"
  shows "select_profile choice profiles cp w' = (Inr (Switched p r), w')"
  using select_profile_switched [OF assms]
  by (simp add: select_profile_def Let_def set_environment_variables_def aws_default_region_def)

lemma manage_aws_profiles_switched:
  assumes "manage_aws_profiles inputs w = (Inr (Switched p r), w')"
  shows "\<exists>credentials cp region typed rest.
           credentials_file w = Holds credentials
         \<and> read_config (config_file w) = Inr cp
         \<and> get_current_region (environ w) cp (aws_default_region w)
               (get_current_default_profile (environ w)) = Inr region
         \<and> inputs = typed # rest
         \<and> str_lower (str_strip typed) \<noteq> ''q''
         \<and> str_lower (str_strip typed) \<noteq> ''a''
         \<and> str_isdigit (str_lower (str_strip typed))
         \<and> select_profile (str_lower (str_strip typed)) (get_all_profiles credentials) cp w
               = (Inr (Switched p r), w')"
proof (cases "credentials_file w")
  case Missing
  with assms show ?thesis
    by (auto simp: manage_aws_profiles_def split: list.splits if_splits)
next
  case Unparsable
  with assms show ?thesis
    by (simp add: manage_aws_profiles_def)
next
  case (Holds credentials)
  show ?thesis
  proof (cases "read_config (config_file w)")
    case (Inl e)
    with assms Holds show ?thesis
      by (simp add: manage_aws_profiles_def)
  next
    case (Inr cp)
    show ?thesis
    proof (cases "get_current_region (environ w) cp (aws_default_region w)
               (get_current_default_profile (environ w))")
      case (Inl e)
      with assms Holds Inr show ?thesis
        by (simp add: manage_aws_profiles_def Let_def)
    next
      case region: (Inr region)
      show ?thesis
      proof (cases inputs)
        case Nil
        with assms Holds Inr region show ?thesis
          by (simp add: manage_aws_profiles_def Let_def)
      next
        case (Cons typed rest)
        with assms Holds Inr region show ?thesis
          using add_new_profile_not_switched [of rest credentials cp w p r]
          by (auto simp: manage_aws_profiles_def Let_def split: if_splits)
      qed
    qed
  qed
qed

lemma manage_aws_profiles_again:
  assumes "manage_aws_profiles inputs w = (Inr (Switched p r), w')"
  shows "manage_aws_profiles inputs w' = (Inr (Switched p r), w')"
proof -
  from manage_aws_profiles_switched [OF assms] obtain credentials cp typed rest where
    c: "credentials_file w = Holds credentials" and g: "read_config (config_file w) = Inr cp"
    and i: "inputs = typed # rest"
    and ch: "str_lower (str_strip typed) \<noteq> ''q''" "str_lower (str_strip typed) \<noteq> ''a''"
        "str_isdigit (str_lower (str_strip typed))"
    and sel: "select_profile (str_lower (str_strip typed)) (get_all_profiles credentials) cp w
               = (Inr (Switched p r), w')"
    by blast
  note w' = select_profile_switched(2) [OF sel]
  obtain x where x: "get_current_region (environ w') cp (aws_default_region w')
               (get_current_default_profile (environ w')) = Inr x"
    using get_current_region_after_switch [of "environ w" p r cp] by (auto simp: w')
  have "credentials_file w' = Holds credentials" and "read_config (config_file w') = Inr cp"
    using c g by (simp_all add: w')
  with x i ch select_profile_again [OF sel] show ?thesis
    by (simp add: manage_aws_profiles_def Let_def)
qed

text \<open>
  \<^bold>\<open>C3.\<close> When \<^verbatim>\<open>AWS_REGION\<close> is not set and the region of \<open>p\<close> resolves to
  \<open>r\<close>, \<^verbatim>\<open>switch_profile p\<close> succeeds and the resolution step, run on the
  environment it leaves, gives the profile \<open>p\<close> and the region \<open>r\<close>; so does
  \<^verbatim>\<open>get_aws_profiles\<close> when the credentials file is there.
\<close>

theorem switch_then_resolve_active:
  assumes "environ w ''AWS_REGION'' = None"
    and "read_config (config_file w) = Inr cp"
    and "get_region_for_profile cp (aws_default_region w) p = Inr r"
  shows "\<exists>w'. switch_profile p w = Inr (r, w')
            \<and> read_config (config_file w') = Inr cp
            \<and> get_current_default_profile (environ w') = p
            \<and> get_current_region (environ w') cp (aws_default_region w')
                  (get_current_default_profile (environ w')) = Inr r
            \<and> (\<forall>c. credentials_file w = Holds c \<longrightarrow>
                   get_aws_profiles w' = Inr (get_all_profiles c, p, r, aws_favorites w))"
proof -
  let ?w' = "w\<lparr>environ := (environ w)(''AWS_PROFILE'' \<mapsto> p, ''AWS_DEFAULT_REGION'' \<mapsto> r),
                batch_file := Some (batch_lines p r)\<rparr>"
  have sw: "switch_profile p w = Inr (r, ?w')"
    by (rule switch_profile_succeeds [OF assms(2,3)])
  have env: "environ ?w' ''AWS_REGION'' = None" "environ ?w' ''AWS_DEFAULT_REGION'' = Some r"
    using assms(1) by simp_all
  have prof: "get_current_default_profile (environ ?w') = p"
    by (simp add: get_current_default_profile_def)
  have reg: "get_current_region (environ ?w') cp (aws_default_region ?w') q = Inr r" for q
    by (rule get_current_region_AWS_DEFAULT_REGION [OF env])
  have "get_aws_profiles ?w' = Inr (get_all_profiles c, p, r, aws_favorites w)"
    if "credentials_file w = Holds c" for c
    using that assms(2) prof reg [of p]
    by (simp add: get_aws_profiles_def Let_def aws_default_region_def aws_favorites_def)
  with sw prof reg [of "get_current_default_profile (environ ?w')"] assms(2) show ?thesis
    by (intro exI [of _ ?w']) simp
qed

theorem switch_then_resolve_active_witness:
  "\<exists>w'. switch_profile ''dev'' (example_world Map.empty) = Inr (''ap-south-1'', w')
       \<and> get_aws_profiles w' = Inr ([''dev'', ''default''], ''dev'', ''ap-south-1'', [])"
proof -
  have a: "environ (example_world Map.empty) ''AWS_REGION'' = None"
    by (simp add: example_world_def)
  have b: "read_config (config_file (example_world Map.empty)) = Inr example_config"
    by (simp add: example_world_def read_config_def)
  have c: "get_region_for_profile example_config
             (aws_default_region (example_world Map.empty)) ''dev'' = Inr ''ap-south-1''"
    using example_region_dev by (simp add: example_world_def aws_default_region_def)
  have d: "credentials_file (example_world Map.empty) = Holds example_credentials"
    by (simp add: example_world_def)
  from switch_then_resolve_active [OF a b c] obtain w' where
    "switch_profile ''dev'' (example_world Map.empty) = Inr (''ap-south-1'', w')"
    and "get_aws_profiles w' = Inr (get_all_profiles example_credentials, ''dev'',
           ''ap-south-1'', aws_favorites (example_world Map.empty))"
    using d by blast
  then show ?thesis
    by (auto simp: example_defs parser_defs step_defs)
qed

text \<open>
  With \<^verbatim>\<open>AWS_REGION\<close> set beforehand the region resolved after the switch is that
  variable's value (\<^verbatim>\<open>us-west-2\<close>), not the region of the profile switched to
  (\<^verbatim>\<open>ap-south-1\<close>).
\<close>

theorem switch_then_resolve_counterexample:
  "switch_profile ''dev'' (example_world [''AWS_REGION'' \<mapsto> ''us-west-2''])
     = Inr (''ap-south-1'',
            (example_world [''AWS_REGION'' \<mapsto> ''us-west-2''])
              \<lparr>environ := [''AWS_REGION'' \<mapsto> ''us-west-2'', ''AWS_PROFILE'' \<mapsto> ''dev'',
                           ''AWS_DEFAULT_REGION'' \<mapsto> ''ap-south-1''],
               batch_file := Some (batch_lines ''dev'' ''ap-south-1'')\<rparr>)
   \<and> get_aws_profiles
       ((example_world [''AWS_REGION'' \<mapsto> ''us-west-2''])
          \<lparr>environ := [''AWS_REGION'' \<mapsto> ''us-west-2'', ''AWS_PROFILE'' \<mapsto> ''dev'',
                       ''AWS_DEFAULT_REGION'' \<mapsto> ''ap-south-1''],
           batch_file := Some (batch_lines ''dev'' ''ap-south-1'')\<rparr>)
     = Inr ([''dev'', ''default''], ''dev'', ''us-west-2'', [])"
  by (simp add: switch_profile_def get_aws_profiles_def example_defs parser_defs step_defs
      interpolate_some_plain Let_def)

text \<open>
  \<^bold>\<open>C4.\<close> A second \<^verbatim>\<open>switch_profile p\<close>, run on what the first left, returns the
  same region without an exception and leaves the environment, the stores and the batch
  file as they were after the first. The same holds for a second run of the manager on
  the same answers, when the first switched by number.
\<close>

theorem switch_twice:
  "(switch_profile p w = Inr (r, w') \<longrightarrow> switch_profile p w' = Inr (r, w'))
   \<and> (manage_aws_profiles inputs v = (Inr (Switched q s), v')
        \<longrightarrow> manage_aws_profiles inputs v' = (Inr (Switched q s), v'))"
  using switch_profile_again manage_aws_profiles_again by blast

theorem switch_twice_witness:
  "switch_profile ''dev'' (example_world Map.empty)
     = Inr (''ap-south-1'',
            (example_world Map.empty)
              \<lparr>environ := [''AWS_PROFILE'' \<mapsto> ''dev'', ''AWS_DEFAULT_REGION'' \<mapsto> ''ap-south-1''],
               batch_file := Some (batch_lines ''dev'' ''ap-south-1'')\<rparr>)
   \<and> switch_profile ''dev''
        ((example_world Map.empty)
           \<lparr>environ := [''AWS_PROFILE'' \<mapsto> ''dev'', ''AWS_DEFAULT_REGION'' \<mapsto> ''ap-south-1''],
            batch_file := Some (batch_lines ''dev'' ''ap-south-1'')\<rparr>)
     = Inr (''ap-south-1'',
            (example_world Map.empty)
              \<lparr>environ := [''AWS_PROFILE'' \<mapsto> ''dev'', ''AWS_DEFAULT_REGION'' \<mapsto> ''ap-south-1''],
               batch_file := Some (batch_lines ''dev'' ''ap-south-1'')\<rparr>)
   \<and> manage_aws_profiles [''2'']
        ((example_world Map.empty)
           \<lparr>environ := [''AWS_PROFILE'' \<mapsto> ''default'', ''AWS_DEFAULT_REGION'' \<mapsto> ''eu-west-1''],
            batch_file := Some (batch_lines ''default'' ''eu-west-1'' @ [''pause''])\<rparr>)
     = (Inr (Switched ''default'' ''eu-west-1''),
        (example_world Map.empty)
           \<lparr>environ := [''AWS_PROFILE'' \<mapsto> ''default'', ''AWS_DEFAULT_REGION'' \<mapsto> ''eu-west-1''],
            batch_file := Some (batch_lines ''default'' ''eu-west-1'' @ [''pause''])\<rparr>)"
proof -
  let ?w1 = "(example_world Map.empty)
              \<lparr>environ := [''AWS_PROFILE'' \<mapsto> ''dev'', ''AWS_DEFAULT_REGION'' \<mapsto> ''ap-south-1''],
               batch_file := Some (batch_lines ''dev'' ''ap-south-1'')\<rparr>"
  let ?v1 = "(example_world Map.empty)
           \<lparr>environ := [''AWS_PROFILE'' \<mapsto> ''default'', ''AWS_DEFAULT_REGION'' \<mapsto> ''eu-west-1''],
            batch_file := Some (batch_lines ''default'' ''eu-west-1'' @ [''pause''])\<rparr>"
  have first: "switch_profile ''dev'' (example_world Map.empty) = Inr (''ap-south-1'', ?w1)"
    using switch_profile_succeeds [of "example_world Map.empty" example_config "''dev''"
        "''ap-south-1''"] example_region_dev
    by (simp add: example_world_def read_config_def aws_default_region_def)
  have digit: "map lower_char (str_strip ''2'') = ''2''" "str_isdigit ''2''" "str_int ''2'' = 2"
    by (simp_all add: lower_char_def str_strip_def isspace_def str_isdigit_def
        str_int_def digit_value_def)
  have run: "manage_aws_profiles [''2''] (example_world Map.empty)
               = (Inr (Switched ''default'' ''eu-west-1''), ?v1)"
    by (simp add: manage_aws_profiles_def select_profile_def digit Let_def
        example_defs parser_defs step_defs interpolate_some_plain)
  from switch_twice [of "''dev''" "example_world Map.empty" "''ap-south-1''" ?w1
      "[''2'']" "example_world Map.empty" "''default''" "''eu-west-1''" ?v1] first run
  show ?thesis by blast
qed

subsection \<open>Adding a profile\<close>

lemma add_new_profile_existing:
  assumes "has_section credentials (str_strip name_typed)" and "str_strip name_typed \<noteq> []"
  shows "add_new_profile (name_typed # inputs) credentials config_parser w
           = (Inr (ProfileExists (str_strip name_typed)), w)"
  using assms by (simp add: add_new_profile_def Let_def)

text \<open>
  \<^bold>\<open>C5.\<close> When the menu is reached, option \<^verbatim>\<open>a\<close> is chosen and the name typed
  (stripped, not empty) is a section of the credentials file, the run ends with
  ``Profile already exists'' and the world is the one it started from: credentials
  file, config file, environment and batch file are untouched.
\<close>

theorem add_existing_profile_rejected:
  assumes "credentials_file w = Holds credentials"
    and "read_config (config_file w) = Inr config_parser"
    and "get_current_region (environ w) config_parser (aws_default_region w)
           (get_current_default_profile (environ w)) = Inr current_region"
    and "str_lower (str_strip typed) = ''a''"
    and "str_strip name_typed \<noteq> []"
    and "has_section credentials (str_strip name_typed)"
  shows "manage_aws_profiles (typed # name_typed # inputs) w
           = (Inr (ProfileExists (str_strip name_typed)), w)"
  using assms by (simp add: manage_aws_profiles_def Let_def add_new_profile_existing)

theorem add_existing_profile_rejected_witness:
  "manage_aws_profiles [''a'', '' dev '', ''AKIANEW'', ''newsecret'', ''eu-west-1'', ''y'']
       (example_world Map.empty)
     = (Inr (ProfileExists ''dev''), example_world Map.empty)"
proof -
  have name: "str_strip '' dev '' = ''dev''"
    by (simp add: str_strip_def isspace_def)
  have a: "credentials_file (example_world Map.empty) = Holds example_credentials"
    by (simp add: example_world_def)
  have b: "read_config (config_file (example_world Map.empty)) = Inr example_config"
    by (simp add: example_world_def read_config_def)
  have c: "get_current_region (environ (example_world Map.empty)) example_config
             (aws_default_region (example_world Map.empty))
             (get_current_default_profile (environ (example_world Map.empty))) = Inr ''us-east-1''"
    by (simp add: example_defs parser_defs step_defs)
  have d: "str_lower (str_strip ''a'') = ''a''"
    by (simp add: str_lower_def lower_char_def str_strip_def isspace_def)
  have e: "str_strip '' dev '' \<noteq> []"
    by (simp add: name)
  have f: "has_section example_credentials (str_strip '' dev '')"
    by (simp add: name has_section_def sections_def example_credentials_def)
  from add_existing_profile_rejected [OF a b c d e f] show ?thesis
    by (simp add: name)
qed

subsection \<open>The region of a profile\<close>

lemma optionxform_region: "optionxform ''region'' = ''region''"
  by (simp add: optionxform_def str_lower_def lower_char_def)

text \<open>
  The lookup falls back to the default region when the parser has no section of that
  name or answers \<^verbatim>\<open>has_option\<close> with no.
\<close>

lemma get_region_for_profile_no_option:
  assumes "\<not> has_section cp (if X = ''default'' then ''default'' else ''profile '' @ X)
         \<or> \<not> has_option cp (if X = ''default'' then ''default'' else ''profile '' @ X) ''region''"
  shows "get_region_for_profile cp d X = Inr d"
  using assms cp_get_fallback [OF section_name_proper, of cp X "''region''" d]
  by (auto simp: get_region_for_profile_def Let_def)

text \<open>
  \<^bold>\<open>C6.\<close> For every profile name \<open>X\<close>: when the config store has no section for
  \<open>X\<close> (\<^verbatim>\<open>default\<close> for the name \<^verbatim>\<open>default\<close>, \<^verbatim>\<open>profile X\<close> otherwise), or
  has the section and neither the section nor \<^verbatim>\<open>[DEFAULT]\<close> has a \<^verbatim>\<open>region\<close>
  key, the region looked up for \<open>X\<close> is the configured default region, and the
  lookup raises nothing.
\<close>

theorem region_for_profile_fallback:
  assumes "case map_of (sections_dict cp)
                  (if X = ''default'' then ''default'' else ''profile '' @ X) of
             None \<Rightarrow> True
           | Some opts \<Rightarrow> ''region'' \<notin> set (map fst opts)
                          \<and> ''region'' \<notin> set (map fst (defaults cp))"
  shows "get_region_for_profile cp d X = Inr d"
proof (rule get_region_for_profile_no_option)
  let ?section = "if X = ''default'' then ''default'' else ''profile '' @ X"
  show "\<not> has_section cp ?section \<or> \<not> has_option cp ?section ''region''"
  proof (cases "map_of (sections_dict cp) ?section")
    case None
    then have "\<not> has_section cp ?section"
      by (simp add: has_section_map_of)
    then show ?thesis ..
  next
    case (Some opts)
    with assms have "''region'' \<notin> set (map fst opts)"
      and "''region'' \<notin> set (map fst (defaults cp))"
      by simp_all
    with Some section_name_proper [of X] have "\<not> has_option cp ?section ''region''"
      by (simp add: has_option_def optionxform_region)
    then show ?thesis ..
  qed
qed

theorem region_for_profile_fallback_witness:
  "map_of (sections_dict example_config) ''profile nobody'' = None
   \<and> get_region_for_profile example_config ''us-east-1'' ''nobody'' = Inr ''us-east-1''
   \<and> map_of (sections_dict example_config) ''profile ops'' = Some [(''output'', ''json'')]
   \<and> defaults example_config = []
   \<and> get_region_for_profile example_config ''us-east-1'' ''ops'' = Inr ''us-east-1''
   \<and> get_region_for_profile empty_parser ''us-east-1'' ''default'' = Inr ''us-east-1''"
proof -
  have a: "map_of (sections_dict example_config) ''profile nobody'' = None"
    by (simp add: example_config_def)
  have b: "map_of (sections_dict example_config) ''profile ops'' = Some [(''output'', ''json'')]"
    by (simp add: example_config_def)
  have c: "defaults example_config = []"
    by (simp add: example_config_def)
  have d: "map_of (sections_dict empty_parser) ''default'' = None"
    by (simp add: empty_parser_def)
  from a b c d
    region_for_profile_fallback [of example_config "''nobody''" "''us-east-1''"]
    region_for_profile_fallback [of example_config "''ops''" "''us-east-1''"]
    region_for_profile_fallback [of empty_parser "''default''" "''us-east-1''"]
  show ?thesis by simp
qed

text \<open>
  A section without a \<^verbatim>\<open>region\<close> key is not enough: a \<^verbatim>\<open>region\<close> key of
  \<^verbatim>\<open>[DEFAULT]\<close> is read through every section. With
  \<^verbatim>\<open>[DEFAULT] region = ca-central-1\<close> the lookup for \<^verbatim>\<open>ops\<close>, whose section has
  no \<^verbatim>\<open>region\<close>, answers \<^verbatim>\<open>ca-central-1\<close> and not the configured default; with
  \<^verbatim>\<open>[DEFAULT] region = 50%\<close> it raises.
\<close>

theorem region_for_profile_inherited_counterexample:
  "map_of (sections_dict
             \<lparr>defaults = [(''region'', ''ca-central-1'')],
              sections_dict = [(''profile ops'', [(''output'', ''json'')])]\<rparr>) ''profile ops''
     = Some [(''output'', ''json'')]
   \<and> get_region_for_profile
        \<lparr>defaults = [(''region'', ''ca-central-1'')],
         sections_dict = [(''profile ops'', [(''output'', ''json'')])]\<rparr>
        ''us-east-1'' ''ops''
     = Inr ''ca-central-1''
   \<and> get_region_for_profile
        \<lparr>defaults = [(''region'', ''50%'')],
         sections_dict = [(''profile ops'', [(''output'', ''json'')])]\<rparr>
        ''us-east-1'' ''ops''
     = Inl InterpolationSyntaxError"
proof -
  have "interpolate_some m (Suc 0) ''%'' = Inl InterpolationSyntaxError" for m
    by (subst interpolate_some.simps) (simp add: MAX_INTERPOLATION_DEPTH_def)
  then have "interpolate_some m (Suc 0) ''0%'' = Inl InterpolationSyntaxError" for m
    by (subst interpolate_some.simps) (simp add: MAX_INTERPOLATION_DEPTH_def)
  then have bad: "interpolate_some m (Suc 0) ''50%'' = Inl InterpolationSyntaxError" for m
    by (subst interpolate_some.simps) (simp add: MAX_INTERPOLATION_DEPTH_def)
  show ?thesis
    by (simp add: parser_defs step_defs interpolate_some_plain bad)
qed

subsection \<open>A missing credentials file\<close>

text \<open>
  \<^bold>\<open>C7.\<close> When the credentials file does not exist, the tray's
  \<^verbatim>\<open>get_aws_profiles\<close> returns the empty list of profiles with the profile
  \<^verbatim>\<open>default\<close>, the configured default region and the favorites, and raises nothing.
  The interactive manager reports the file as not found and ends the run; it lists no
  profile, and writes the bootstrap file when the answer is \<^verbatim>\<open>y\<close>.
\<close>

theorem missing_credentials_file:
  assumes "credentials_file w = Missing"
  shows "get_aws_profiles w = Inr ([], ''default'', aws_default_region w, aws_favorites w)
       \<and> manage_aws_profiles (answer # inputs) w =
           (if str_lower answer = ''y''
            then (Inr (CredentialsNotFound True),
                  w\<lparr>credentials_file := Holds bootstrap_credentials\<rparr>)
            else (Inr (CredentialsNotFound False), w))"
  using assms by (simp add: get_aws_profiles_def manage_aws_profiles_def)

theorem missing_credentials_file_witness:
  "get_aws_profiles ((example_world Map.empty)\<lparr>credentials_file := Missing\<rparr>)
     = Inr ([], ''default'', ''us-east-1'', [])
   \<and> manage_aws_profiles [''n''] ((example_world Map.empty)\<lparr>credentials_file := Missing\<rparr>)
     = (Inr (CredentialsNotFound False), (example_world Map.empty)\<lparr>credentials_file := Missing\<rparr>)"
proof -
  have "credentials_file ((example_world Map.empty)\<lparr>credentials_file := Missing\<rparr>) = Missing"
    by simp
  from missing_credentials_file [OF this, of "''n''" "[]"] show ?thesis
    by (simp add: example_world_def aws_default_region_def aws_favorites_def
        str_lower_def lower_char_def)
qed

text \<open>
  The tray's listing of a configuration without a credentials file is the empty list,
  returned as a result and not as an error.
\<close>

theorem missing_credentials_counterexample:
  "get_aws_profiles
     \<lparr>environ = Map.empty,
      aws_profiles = \<lparr>cfg_favorites = None, cfg_default_region = None\<rparr>,
      credentials_file = Missing,
      config_file = Missing,
      batch_file = None\<rparr>
   = Inr ([], ''default'', ''us-east-1'', [])"
  by (simp add: get_aws_profiles_def aws_default_region_def aws_favorites_def)

subsection \<open>No check of the target, and the frame of a switch\<close>

text \<open>
  \<^bold>\<open>C8.\<close> \<^verbatim>\<open>switch_profile\<close> does not look at the credentials file: whatever that
  file is (missing, or without a section \<open>p\<close>), as soon as the region of \<open>p\<close>
  resolves to \<open>r\<close> the switch succeeds, sets \<^verbatim>\<open>AWS_PROFILE\<close> to \<open>p\<close> and
  \<^verbatim>\<open>AWS_DEFAULT_REGION\<close> to \<open>r\<close>, writes the batch file and returns \<open>r\<close>.
\<close>

theorem switch_profile_unvalidated:
  assumes "read_config (config_file w) = Inr cp"
    and "get_region_for_profile cp (aws_default_region w) p = Inr r"
  shows "switch_profile p (w\<lparr>credentials_file := c\<rparr>) =
           Inr (r, w\<lparr>credentials_file := c,
                     environ := (environ w)(''AWS_PROFILE'' \<mapsto> p, ''AWS_DEFAULT_REGION'' \<mapsto> r),
                     batch_file := Some (batch_lines p r)\<rparr>)"
  using assms
  by (simp add: switch_profile_def set_environment_variables_def aws_default_region_def)

theorem switch_profile_unvalidated_witness:
  "''ghost'' \<notin> set (get_all_profiles example_credentials)
   \<and> switch_profile ''ghost'' ((example_world Map.empty)\<lparr>credentials_file := Holds example_credentials\<rparr>)
     = Inr (''us-east-1'',
            (example_world Map.empty)
              \<lparr>credentials_file := Holds example_credentials,
               environ := [''AWS_PROFILE'' \<mapsto> ''ghost'', ''AWS_DEFAULT_REGION'' \<mapsto> ''us-east-1''],
               batch_file := Some (batch_lines ''ghost'' ''us-east-1'')\<rparr>)
   \<and> switch_profile ''ghost'' ((example_world Map.empty)\<lparr>credentials_file := Missing\<rparr>)
     = Inr (''us-east-1'',
            (example_world Map.empty)
              \<lparr>credentials_file := Missing,
               environ := [''AWS_PROFILE'' \<mapsto> ''ghost'', ''AWS_DEFAULT_REGION'' \<mapsto> ''us-east-1''],
               batch_file := Some (batch_lines ''ghost'' ''us-east-1'')\<rparr>)"
proof -
  have a: "read_config (config_file (example_world Map.empty)) = Inr example_config"
    by (simp add: example_world_def read_config_def)
  have b: "get_region_for_profile example_config
             (aws_default_region (example_world Map.empty)) ''ghost'' = Inr ''us-east-1''"
    by (simp add: example_defs parser_defs step_defs)
  have c: "''ghost'' \<notin> set (get_all_profiles example_credentials)"
    by (simp add: example_defs parser_defs step_defs)
  from c switch_profile_unvalidated [OF a b, of "Holds example_credentials"]
    switch_profile_unvalidated [OF a b, of Missing]
  show ?thesis
    by (simp add: example_world_def)
qed

text \<open>
  \<^bold>\<open>C9.\<close> A switch changes the environment at \<^verbatim>\<open>AWS_PROFILE\<close> and
  \<^verbatim>\<open>AWS_DEFAULT_REGION\<close> and nowhere else. \<^verbatim>\<open>AWS_REGION\<close> keeps its value, and
  when it has one the resolution step run afterwards still answers it as the region.
  The manager's switch by number changes the environment in the same way.
\<close>

theorem switch_profile_frame:
  assumes "switch_profile p w = Inr (r, w')"
  shows "environ w' = (environ w)(''AWS_PROFILE'' \<mapsto> p, ''AWS_DEFAULT_REGION'' \<mapsto> r)
       \<and> (\<forall>v. v \<noteq> ''AWS_PROFILE'' \<and> v \<noteq> ''AWS_DEFAULT_REGION'' \<longrightarrow> environ w' v = environ w v)
       \<and> environ w' ''AWS_REGION'' = environ w ''AWS_REGION''
       \<and> (\<forall>x cp d. environ w ''AWS_REGION'' = Some x \<longrightarrow>
             get_current_region (environ w') cp d (get_current_default_profile (environ w'))
               = Inr x)
       \<and> (\<forall>v' q s. manage_aws_profiles inputs w = (Inr (Switched q s), v') \<longrightarrow>
             environ v' = (environ w)(''AWS_PROFILE'' \<mapsto> q, ''AWS_DEFAULT_REGION'' \<mapsto> s))"
proof -
  have env: "environ w' = (environ w)(''AWS_PROFILE'' \<mapsto> p, ''AWS_DEFAULT_REGION'' \<mapsto> r)"
    using switch_profile_result(2) [OF assms] by simp
  have others: "\<forall>v. v \<noteq> ''AWS_PROFILE'' \<and> v \<noteq> ''AWS_DEFAULT_REGION'' \<longrightarrow>
                  environ w' v = environ w v"
    by (simp add: env)
  have region: "environ w' ''AWS_REGION'' = environ w ''AWS_REGION''"
    by (simp add: env)
  have resolve: "\<forall>x cp d. environ w ''AWS_REGION'' = Some x \<longrightarrow>
             get_current_region (environ w') cp d (get_current_default_profile (environ w'))
               = Inr x"
    using region by (simp add: get_current_region_AWS_REGION)
  have manager: "\<forall>v' q s. manage_aws_profiles inputs w = (Inr (Switched q s), v') \<longrightarrow>
             environ v' = (environ w)(''AWS_PROFILE'' \<mapsto> q, ''AWS_DEFAULT_REGION'' \<mapsto> s)"
  proof (intro allI impI)
    fix v' q s
    assume "manage_aws_profiles inputs w = (Inr (Switched q s), v')"
    from manage_aws_profiles_switched [OF this] obtain choice profiles cp where
      "select_profile choice profiles cp w = (Inr (Switched q s), v')"
      by blast
    from select_profile_switched(2) [OF this]
    show "environ v' = (environ w)(''AWS_PROFILE'' \<mapsto> q, ''AWS_DEFAULT_REGION'' \<mapsto> s)"
      by simp
  qed
  from env others region resolve manager show ?thesis
    by (intro conjI)
qed

theorem switch_profile_frame_witness:
  "switch_profile ''dev'' (example_world [''AWS_REGION'' \<mapsto> ''us-west-2'', ''EDITOR'' \<mapsto> ''vim''])
     = Inr (''ap-south-1'',
            (example_world [''AWS_REGION'' \<mapsto> ''us-west-2'', ''EDITOR'' \<mapsto> ''vim''])
              \<lparr>environ := [''AWS_REGION'' \<mapsto> ''us-west-2'', ''EDITOR'' \<mapsto> ''vim'',
                           ''AWS_PROFILE'' \<mapsto> ''dev'', ''AWS_DEFAULT_REGION'' \<mapsto> ''ap-south-1''],
               batch_file := Some (batch_lines ''dev'' ''ap-south-1'')\<rparr>)
   \<and> get_current_region
        [''AWS_REGION'' \<mapsto> ''us-west-2'', ''EDITOR'' \<mapsto> ''vim'',
         ''AWS_PROFILE'' \<mapsto> ''dev'', ''AWS_DEFAULT_REGION'' \<mapsto> ''ap-south-1'']
        example_config ''us-east-1'' ''dev'' = Inr ''us-west-2''"
proof -
  let ?w = "example_world [''AWS_REGION'' \<mapsto> ''us-west-2'', ''EDITOR'' \<mapsto> ''vim'']"
  let ?w' = "?w\<lparr>environ := [''AWS_REGION'' \<mapsto> ''us-west-2'', ''EDITOR'' \<mapsto> ''vim'',
                           ''AWS_PROFILE'' \<mapsto> ''dev'', ''AWS_DEFAULT_REGION'' \<mapsto> ''ap-south-1''],
               batch_file := Some (batch_lines ''dev'' ''ap-south-1'')\<rparr>"
  have sw: "switch_profile ''dev'' ?w = Inr (''ap-south-1'', ?w')"
    using switch_profile_succeeds [of ?w example_config "''dev''" "''ap-south-1''"]
      example_region_dev
    by (simp add: example_world_def read_config_def aws_default_region_def)
  have region: "environ ?w ''AWS_REGION'' = Some ''us-west-2''"
    by (simp add: example_world_def)
  from switch_profile_frame [OF sw, of "[]"]
  have "\<forall>x cp d. environ ?w ''AWS_REGION'' = Some x \<longrightarrow>
          get_current_region (environ ?w') cp d (get_current_default_profile (environ ?w'))
            = Inr x"
    by (elim conjE)
  with region
  have "get_current_region (environ ?w') example_config ''us-east-1''
          (get_current_default_profile (environ ?w')) = Inr ''us-west-2''"
    by (elim allE impE)
  with sw show ?thesis
    by (simp add: get_current_default_profile_def)
qed

subsection \<open>Favorites\<close>

lemma with_favorites_fields [simp]:
  "environ (with_favorites fs w) = environ w"
  "credentials_file (with_favorites fs w) = credentials_file w"
  "config_file (with_favorites fs w) = config_file w"
  "batch_file (with_favorites fs w) = batch_file w"
  "aws_default_region (with_favorites fs w) = aws_default_region w"
  by (simp_all add: with_favorites_def aws_default_region_def)

lemma with_favorites_updates [simp]:
  "with_favorites fs (w\<lparr>environ := e\<rparr>) = (with_favorites fs w)\<lparr>environ := e\<rparr>"
  "with_favorites fs (w\<lparr>batch_file := b\<rparr>) = (with_favorites fs w)\<lparr>batch_file := b\<rparr>"
  "with_favorites fs (w\<lparr>credentials_file := c\<rparr>) = (with_favorites fs w)\<lparr>credentials_file := c\<rparr>"
  "with_favorites fs (w\<lparr>config_file := g\<rparr>) = (with_favorites fs w)\<lparr>config_file := g\<rparr>"
  by (simp_all add: with_favorites_def)

lemma select_profile_favorites:
  "select_profile choice profiles cp (with_favorites fs w)
     = apsnd (with_favorites fs) (select_profile choice profiles cp w)"
  by (simp add: select_profile_def Let_def split: sum.splits)

lemma add_new_profile_favorites:
  "add_new_profile inputs c g (with_favorites fs w)
     = apsnd (with_favorites fs) (add_new_profile inputs c g w)"
  by (simp add: add_new_profile_def Let_def split: list.splits sum.splits)

lemma manage_aws_profiles_favorites:
  "manage_aws_profiles inputs (with_favorites fs w)
     = apsnd (with_favorites fs) (manage_aws_profiles inputs w)"
  by (simp add: manage_aws_profiles_def Let_def select_profile_favorites
      add_new_profile_favorites split: ini_file.splits list.splits sum.splits)

lemma switch_profile_favorites:
  "switch_profile p (with_favorites fs w)
     = map_sum id (apsnd (with_favorites fs)) (switch_profile p w)"
  by (simp add: switch_profile_def split: sum.splits)

lemma get_aws_profiles_favorites:
  "map_sum id (\<lambda>(profiles, current_profile, current_region, favs).
                   (profiles, current_profile, current_region))
       (get_aws_profiles (with_favorites fs w))
   = map_sum id (\<lambda>(profiles, current_profile, current_region, favs).
                   (profiles, current_profile, current_region))
       (get_aws_profiles w)"
  by (simp add: get_aws_profiles_def Let_def split: ini_file.splits sum.splits)

text \<open>
  \<^bold>\<open>C10.\<close> Two configurations that differ only in their favorites give the
  resolution steps the same inputs (environment, config file, default region). The
  tray's \<^verbatim>\<open>get_aws_profiles\<close> returns the same profiles, current profile and current
  region (or the same exception); \<^verbatim>\<open>switch_profile\<close> and a run of the manager
  return the same result and leave worlds that differ only in the favorites again.
\<close>

theorem favorites_do_not_interfere:
  "environ (with_favorites fs w) = environ w
   \<and> config_file (with_favorites fs w) = config_file w
   \<and> aws_default_region (with_favorites fs w) = aws_default_region w
   \<and> map_sum id (\<lambda>(profiles, current_profile, current_region, favs).
                     (profiles, current_profile, current_region))
         (get_aws_profiles (with_favorites fs w))
     = map_sum id (\<lambda>(profiles, current_profile, current_region, favs).
                     (profiles, current_profile, current_region))
         (get_aws_profiles w)
   \<and> switch_profile p (with_favorites fs w)
     = map_sum id (apsnd (with_favorites fs)) (switch_profile p w)
   \<and> manage_aws_profiles inputs (with_favorites fs w)
     = apsnd (with_favorites fs) (manage_aws_profiles inputs w)"
  by (simp only: with_favorites_fields get_aws_profiles_favorites switch_profile_favorites
      manage_aws_profiles_favorites simp_thms)

end
